theory Spec2Isabelle
  imports Main
begin

section \<open>Python values\<close>

text \<open>
  The client moves JSON-decoded bodies and small tuples around. A Python value is one of
  the shapes below. A dict keeps its insertion order (an association list, looked up
  with \<open>map_of\<close>); JSON keys are strings. A float is represented by the text that
  \<open>repr\<close> prints for it (\<open>''0.0''\<close>, \<open>''12.5''\<close>), which identifies it.
\<close>

datatype pyval =
    PNone
  | PBool bool
  | PInt int
  | PFloat string
  | PStr string
  | PList "pyval list"
  | PTuple "pyval list"
  | PDict "(string \<times> pyval) list"

text \<open>An exception is its class and the text \<open>str(e)\<close> gives.\<close>

datatype exc_kind =
    RuntimeError
  | ValueError
  | TypeError
  | AttributeError
  | IndexError
  | KeyError
  | OverflowError
  | JSONDecodeError
  | TransportError

datatype py_error = Exc exc_kind string

fun exc_str :: "py_error \<Rightarrow> string" where
  "exc_str (Exc k m) = m"

fun type_name :: "pyval \<Rightarrow> string" where
  "type_name PNone = ''NoneType''"
| "type_name (PBool b) = ''bool''"
| "type_name (PInt i) = ''int''"
| "type_name (PFloat r) = ''float''"
| "type_name (PStr s) = ''str''"
| "type_name (PList xs) = ''list''"
| "type_name (PTuple xs) = ''tuple''"
| "type_name (PDict kvs) = ''dict''"

text \<open>Truthiness, as \<open>not x\<close> and \<open>if x\<close> read it.\<close>

fun truthy :: "pyval \<Rightarrow> bool" where
  "truthy PNone = False"
| "truthy (PBool b) = b"
| "truthy (PInt i) = (i \<noteq> 0)"
| "truthy (PFloat r) = (r \<noteq> ''0.0'' \<and> r \<noteq> ''-0.0'')"
| "truthy (PStr s) = (s \<noteq> [])"
| "truthy (PList xs) = (xs \<noteq> [])"
| "truthy (PTuple xs) = (xs \<noteq> [])"
| "truthy (PDict kvs) = (kvs \<noteq> [])"

text \<open>\<open>x == 200\<close>: an int, or the float 200.0; \<open>True\<close> is 1 and every other shape differs.\<close>

fun py_eq_200 :: "pyval \<Rightarrow> bool" where
  "py_eq_200 (PInt i) = (i = 200)"
| "py_eq_200 (PFloat r) = (r = ''200.0'')"
| "py_eq_200 v = False"

definition quoted :: "string \<Rightarrow> string" where
  "quoted s = CHR 0x27 # s @ [CHR 0x27]"

text \<open>\<open>d.get(k, default)\<close>: only a dict has the method.\<close>

fun py_get :: "pyval \<Rightarrow> string \<Rightarrow> pyval \<Rightarrow> py_error + pyval" where
  "py_get (PDict kvs) k dflt = Inr (case map_of kvs k of Some v \<Rightarrow> v | None \<Rightarrow> dflt)"
| "py_get v k dflt =
     Inl (Exc AttributeError (quoted (type_name v) @ '' object has no attribute '' @ quoted ''get''))"

text \<open>\<open>x[0]\<close>. A JSON dict has string keys only, so the key 0 is never found.\<close>

fun py_index0 :: "pyval \<Rightarrow> py_error + pyval" where
  "py_index0 (PList xs) =
     (case xs of [] \<Rightarrow> Inl (Exc IndexError ''list index out of range'') | x # _ \<Rightarrow> Inr x)"
| "py_index0 (PTuple xs) =
     (case xs of [] \<Rightarrow> Inl (Exc IndexError ''tuple index out of range'') | x # _ \<Rightarrow> Inr x)"
| "py_index0 (PStr s) =
     (case s of [] \<Rightarrow> Inl (Exc IndexError ''string index out of range'') | c # _ \<Rightarrow> Inr (PStr [c]))"
| "py_index0 (PDict kvs) = Inl (Exc KeyError ''0'')"
| "py_index0 v = Inl (Exc TypeError (quoted (type_name v) @ '' object is not subscriptable''))"

subsection \<open>Rendering: \<open>str\<close>, \<open>repr\<close>, \<open>lower\<close>, \<open>in\<close>\<close>

definition digit_char :: "nat \<Rightarrow> char" where
  "digit_char n = ''0123456789abcdef'' ! n"

fun str_nat :: "nat \<Rightarrow> string" where
  "str_nat n = (if n < 10 then [digit_char n] else str_nat (n div 10) @ [digit_char (n mod 10)])"

declare str_nat.simps [simp del]

definition str_int :: "int \<Rightarrow> string" where
  "str_int i = (if i < 0 then CHR ''-'' # str_nat (nat (- i)) else str_nat (nat i))"

text \<open>
  \<open>repr\<close> of a string: single quotes unless the text has a single quote and no double
  quote; the quote and the backslash are escaped, tab, newline and return are written
  \<open>\t\<close>, \<open>\n\<close>, \<open>\r\<close>, every other control character as \<open>\xhh\<close>. Bytes from
  0x80 on are the UTF-8 of printable characters and stay as they are.
\<close>

definition repr_char :: "char \<Rightarrow> char \<Rightarrow> string" where
  "repr_char q c =
     (let n = (of_char c :: nat) in
      if c = q \<or> c = CHR 0x5C then [CHR 0x5C, c]
      else if c = CHR 0x09 then [CHR 0x5C, CHR ''t'']
      else if c = CHR 0x0A then [CHR 0x5C, CHR ''n'']
      else if c = CHR 0x0D then [CHR 0x5C, CHR ''r'']
      else if n < 32 \<or> n = 127 then [CHR 0x5C, CHR ''x'', digit_char (n div 16), digit_char (n mod 16)]
      else [c])"

definition repr_str :: "string \<Rightarrow> string" where
  "repr_str s =
     (let q = (if CHR 0x27 \<in> set s \<and> CHR 0x22 \<notin> set s then CHR 0x22 else CHR 0x27)
      in q # concat (map (repr_char q) s) @ [q])"

fun join_comma :: "string list \<Rightarrow> string" where
  "join_comma [] = []"
| "join_comma [x] = x"
| "join_comma (x # y # ys) = x @ '', '' @ join_comma (y # ys)"

fun py_repr :: "pyval \<Rightarrow> string" where
  "py_repr PNone = ''None''"
| "py_repr (PBool b) = (if b then ''True'' else ''False'')"
| "py_repr (PInt i) = str_int i"
| "py_repr (PFloat r) = r"
| "py_repr (PStr s) = repr_str s"
| "py_repr (PList xs) = ''['' @ join_comma (map py_repr xs) @ '']''"
| "py_repr (PTuple xs) =
     (case xs of [x] \<Rightarrow> ''('' @ py_repr x @ '',)''
      | _ \<Rightarrow> ''('' @ join_comma (map py_repr xs) @ '')'')"
| "py_repr (PDict kvs) =
     ''{'' @ join_comma (map (\<lambda>(k, v). repr_str k @ '': '' @ py_repr v) kvs) @ ''}''"

text \<open>\<open>str(x)\<close>: a string is itself, every other value prints as its \<open>repr\<close>.\<close>

fun py_str :: "pyval \<Rightarrow> string" where
  "py_str (PStr s) = s"
| "py_str v = py_repr v"

text \<open>
  \<open>s.lower()\<close> on the ASCII letters. No character outside ASCII lowers to a letter of
  \<open>captcha\<close> or \<open>cloudflare\<close>, so the marker test below reads the same on the bytes.
\<close>

definition lower_char :: "char \<Rightarrow> char" where
  "lower_char c =
     (case map_of (zip ''ABCDEFGHIJKLMNOPQRSTUVWXYZ'' ''abcdefghijklmnopqrstuvwxyz'') c of
        Some d \<Rightarrow> d | None \<Rightarrow> c)"

definition lower :: "string \<Rightarrow> string" where
  "lower s = map lower_char s"

fun starts_with :: "string \<Rightarrow> string \<Rightarrow> bool" where
  "starts_with [] t = True"
| "starts_with (p # ps) [] = False"
| "starts_with (p # ps) (c # cs) = (p = c \<and> starts_with ps cs)"

text \<open>\<open>p in t\<close> on strings.\<close>

fun contains :: "string \<Rightarrow> string \<Rightarrow> bool" where
  "contains p [] = (p = [])"
| "contains p (c # cs) = (starts_with p (c # cs) \<or> contains p cs)"

definition and_then :: "'e + 'a \<Rightarrow> ('a \<Rightarrow> 'e + 'b) \<Rightarrow> 'e + 'b" where
  "and_then r f = (case r of Inl e \<Rightarrow> Inl e | Inr v \<Rightarrow> f v)"

section \<open>The client and its surroundings\<close>

text \<open>
  What the client cannot decide is given by an environment: the configuration read at
  start-up, the clock (\<open>utcnow_at E k\<close> is what the \<open>k\<close>-th call of
  \<open>datetime.utcnow()\<close> returns, in microseconds since 0001-01-01T00:00:00), the
  remote service (\<open>post_at E k req\<close> is the outcome of the \<open>k\<close>-th request: a
  response, or \<open>Inl m\<close> when the transport raises an exception whose text is \<open>m\<close>),
  the random generator, and the library functions the client calls on stored text
  (\<open>datetime.fromisoformat\<close>, \<open>isoformat\<close>, \<open>json.loads\<close> followed by the
  cookie jar's \<open>update\<close>, \<open>json.dumps\<close>) and on numbers (\<open>float\<close> of an integer
  beyond 2^53 and of a string; \<open>None\<close> where it raises). The store is a map from keys
  to strings whose get, set and delete always succeed.
\<close>

record request =
  endpoint :: string
  payload :: pyval

record response =
  status_code :: int
  body_text :: string
  body_json :: "pyval option"
  set_cookie :: "string \<rightharpoonup> string"

datatype pydatetime = Naive int | Aware int

record env =
  AGENT_USERNAME :: string
  AGENT_PASSWORD :: string
  PARENT_ID :: string
  SESSION_DURATION_MIN :: int
  MAX_SESSION_AGE_HOURS :: int
  utcnow_at :: "nat \<Rightarrow> int"
  post_at :: "nat \<Rightarrow> request \<Rightarrow> string + response"
  randint_at :: "nat \<Rightarrow> int"
  fromisoformat :: "string \<Rightarrow> pydatetime option"
  isoformat :: "int \<Rightarrow> string"
  cookies_loads :: "string \<Rightarrow> (string \<rightharpoonup> string) option"
  cookies_dumps :: "(string \<rightharpoonup> string) \<Rightarrow> string"
  float_of_int :: "int \<Rightarrow> string option"
  float_of_str :: "string \<Rightarrow> string option"

text \<open>
  The object's fields are \<open>scraper\<close> (\<open>None\<close> until \<open>_init_scraper\<close> has run, then the
  cookie jar), \<open>is_logged_in\<close> and the store. \<open>ticks\<close>, \<open>sent\<close> and \<open>draws\<close> record
  how much of the environment has been used: the number of clock readings, the requests
  posted so far, the number of random draws.
\<close>

record api_state =
  scraper :: "(string \<rightharpoonup> string) option"
  is_logged_in :: bool
  redis :: "string \<rightharpoonup> string"
  ticks :: nat
  sent :: "request list"
  draws :: nat

definition ORIGIN :: string where
  "ORIGIN = ''https://agents.ichancy.com''"

definition ENDPOINTS :: "string \<Rightarrow> string" where
  "ENDPOINTS k =
     (if k = ''signin'' then ''/global/api/User/signIn''
      else if k = ''create'' then ''/global/api/Player/registerPlayer''
      else if k = ''statistics'' then ''/global/api/Statistics/getPlayersStatisticsPro''
      else if k = ''deposit'' then ''/global/api/Player/depositToPlayer''
      else if k = ''withdraw'' then ''/global/api/Player/withdrawFromPlayer''
      else ''/global/api/Player/getPlayerBalanceById'')"

definition REDIS_COOKIES_KEY :: string where
  "REDIS_COOKIES_KEY = ''ichancy:cookies''"

definition REDIS_SESSION_EXPIRY_KEY :: string where
  "REDIS_SESSION_EXPIRY_KEY = ''ichancy:session_expiry''"

definition REDIS_LAST_LOGIN_KEY :: string where
  "REDIS_LAST_LOGIN_KEY = ''ichancy:last_login''"

subsection \<open>Time\<close>

definition utcnow :: "env \<Rightarrow> api_state \<Rightarrow> int \<times> api_state" where
  "utcnow E s = (utcnow_at E (ticks s), s\<lparr>ticks := Suc (ticks s)\<rparr>)"

text \<open>
  \<open>timedelta(minutes=m)\<close> and \<open>timedelta(hours=h)\<close>, in microseconds. A timedelta holds
  at most 999999999 days in either direction; beyond that the constructor raises.
\<close>

definition timedelta_minutes :: "int \<Rightarrow> py_error + int" where
  "timedelta_minutes m =
     (if \<bar>m div 1440\<bar> > 999999999 then Inl (Exc OverflowError ''days out of range'')
      else Inr (m * 60000000))"

definition timedelta_hours :: "int \<Rightarrow> py_error + int" where
  "timedelta_hours h =
     (if \<bar>h div 24\<bar> > 999999999 then Inl (Exc OverflowError ''days out of range'')
      else Inr (h * 3600000000))"

text \<open>The last instant a datetime can hold: 9999-12-31T23:59:59.999999.\<close>

definition DATETIME_MAX :: int where
  "DATETIME_MAX = 315537897600000000 - 1"

definition dt_add :: "int \<Rightarrow> int \<Rightarrow> py_error + int" where
  "dt_add t d =
     (if 0 \<le> t + d \<and> t + d \<le> DATETIME_MAX then Inr (t + d)
      else Inl (Exc OverflowError ''date value out of range''))"

text \<open>
  \<open>utcnow()\<close> is naive. Subtracting or comparing it with a datetime that carries an
  offset raises \<open>TypeError\<close>.
\<close>

definition dt_sub :: "int \<Rightarrow> pydatetime \<Rightarrow> py_error + int" where
  "dt_sub t other =
     (case other of
        Naive u \<Rightarrow> Inr (t - u)
      | Aware u \<Rightarrow>
          Inl (Exc TypeError (''can'' @ [CHR 0x27] @ ''t subtract offset-naive and offset-aware datetimes'')))"

definition dt_lt :: "int \<Rightarrow> pydatetime \<Rightarrow> py_error + bool" where
  "dt_lt t other =
     (case other of
        Naive u \<Rightarrow> Inr (t < u)
      | Aware u \<Rightarrow>
          Inl (Exc TypeError (''can'' @ [CHR 0x27] @ ''t compare offset-naive and offset-aware datetimes'')))"

subsection \<open>Session tools\<close>

text \<open>
  \<open>_is_session_valid\<close>. A key that is absent or holds the empty string, or a text that
  \<open>fromisoformat\<close> rejects, gives \<open>False\<close>; the arithmetic after the \<open>try\<close> can raise.
\<close>

definition is_session_valid :: "env \<Rightarrow> api_state \<Rightarrow> (py_error + bool) \<times> api_state" where
  "is_session_valid E s =
     (case redis s REDIS_SESSION_EXPIRY_KEY of
        None \<Rightarrow> (Inr False, s)
      | Some session_expiry_str \<Rightarrow>
     (case redis s REDIS_LAST_LOGIN_KEY of
        None \<Rightarrow> (Inr False, s)
      | Some last_login_str \<Rightarrow>
     if session_expiry_str = [] \<or> last_login_str = [] then (Inr False, s)
     else
     (case fromisoformat E session_expiry_str of
        None \<Rightarrow> (Inr False, s)
      | Some session_expiry \<Rightarrow>
     (case fromisoformat E last_login_str of
        None \<Rightarrow> (Inr False, s)
      | Some last_login_time \<Rightarrow>
     (case utcnow E s of (now, s1) \<Rightarrow>
     (and_then (timedelta_minutes (SESSION_DURATION_MIN E)) (\<lambda>session_duration.
      and_then (timedelta_hours (MAX_SESSION_AGE_HOURS E)) (\<lambda>max_session_age.
      and_then (dt_sub now last_login_time) (\<lambda>time_since_login.
      and_then (dt_lt now session_expiry) (\<lambda>not_expired.
      Inr (not_expired \<and> time_since_login < max_session_age))))), s1))))))"

text \<open>
  \<open>_save_session_to_redis\<close>. Everything is inside one \<open>try\<close>: when the expiry cannot
  be computed nothing is written and the exception is logged, not raised.
\<close>

definition save_session_to_redis :: "env \<Rightarrow> api_state \<Rightarrow> api_state" where
  "save_session_to_redis E s =
     (case scraper s of
        None \<Rightarrow> s
      | Some jar \<Rightarrow>
     (case utcnow E s of (now, s1) \<Rightarrow>
     (case and_then (timedelta_minutes (SESSION_DURATION_MIN E)) (dt_add now) of
        Inl e \<Rightarrow> s1
      | Inr session_expiry \<Rightarrow>
          s1\<lparr>redis := (redis s1)
               (REDIS_COOKIES_KEY \<mapsto> cookies_dumps E jar,
                REDIS_SESSION_EXPIRY_KEY \<mapsto> isoformat E session_expiry,
                REDIS_LAST_LOGIN_KEY \<mapsto> isoformat E now)\<rparr>)))"

definition clear_session_in_redis :: "api_state \<Rightarrow> api_state" where
  "clear_session_in_redis s =
     s\<lparr>redis := (redis s)
          (REDIS_COOKIES_KEY := None, REDIS_SESSION_EXPIRY_KEY := None, REDIS_LAST_LOGIN_KEY := None),
       is_logged_in := False\<rparr>"

text \<open>
  \<open>_init_scraper\<close>: a fresh jar; when the store holds cookies that load and the stored
  record is valid, the state is marked logged in. Any exception in that attempt is caught.
\<close>

definition init_scraper :: "env \<Rightarrow> api_state \<Rightarrow> api_state" where
  "init_scraper E s =
     (let s1 = s\<lparr>scraper := Some Map.empty\<rparr> in
      case redis s1 REDIS_COOKIES_KEY of
        None \<Rightarrow> s1\<lparr>is_logged_in := False\<rparr>
      | Some cookies_json \<Rightarrow>
          if cookies_json = [] then s1\<lparr>is_logged_in := False\<rparr>
          else
          (case cookies_loads E cookies_json of
             None \<Rightarrow> s1\<lparr>is_logged_in := False\<rparr>
           | Some cookies \<Rightarrow>
              (case is_session_valid E (s1\<lparr>scraper := Some (Map.empty ++ cookies)\<rparr>) of
                 (valid, s2) \<Rightarrow>
                   if valid = Inr True then s2\<lparr>is_logged_in := True\<rparr>
                   else s2\<lparr>is_logged_in := False\<rparr>)))"

subsection \<open>Challenge pages\<close>

definition captcha_like :: "string \<Rightarrow> bool" where
  "captcha_like t = (contains ''captcha'' t \<or> contains ''cloudflare'' t)"

definition check_captcha :: "string \<Rightarrow> bool" where
  "check_captcha response_text = captcha_like (lower response_text)"

subsection \<open>Posting a request\<close>

text \<open>
  \<open>self.scraper.post(url, json=payload, headers=...)\<close>. On an object whose scraper is
  still \<open>None\<close> the attribute lookup fails. Otherwise the request goes out; the
  response's cookies enter the jar.
\<close>

definition post :: "env \<Rightarrow> string \<Rightarrow> pyval \<Rightarrow> api_state \<Rightarrow> (py_error + response) \<times> api_state" where
  "post E url json_payload s =
     (case scraper s of
        None \<Rightarrow>
          (Inl (Exc AttributeError
             (quoted ''NoneType'' @ '' object has no attribute '' @ quoted ''post'')), s)
      | Some jar \<Rightarrow>
          (let req = \<lparr>endpoint = url, payload = json_payload\<rparr>;
               s1 = s\<lparr>sent := sent s @ [req]\<rparr>
           in case post_at E (length (sent s)) req of
                Inl msg \<Rightarrow> (Inl (Exc TransportError msg), s1)
              | Inr resp \<Rightarrow> (Inr resp, s1\<lparr>scraper := Some (jar ++ set_cookie resp)\<rparr>)))"

subsection \<open>Login\<close>

definition signin_request :: "env \<Rightarrow> request" where
  "signin_request E =
     \<lparr>endpoint = ORIGIN @ ENDPOINTS ''signin'',
      payload = PDict [(''username'', PStr (AGENT_USERNAME E)), (''password'', PStr (AGENT_PASSWORD E))]\<rparr>"

text \<open>\<open>data.get("notification", [{}])[0].get("content", "Login failed")\<close>\<close>

definition login_error_msg :: "pyval \<Rightarrow> py_error + pyval" where
  "login_error_msg data =
     and_then (py_get data ''notification'' (PList [PDict []])) (\<lambda>notes.
     and_then (py_index0 notes) (\<lambda>note.
     py_get note ''content'' (PStr ''Login failed'')))"

text \<open>The body of the \<open>try\<close> in \<open>login\<close>; \<open>Inl\<close> is an exception reaching the handler.\<close>

definition login_try :: "env \<Rightarrow> api_state \<Rightarrow> (py_error + bool \<times> pyval) \<times> api_state" where
  "login_try E s =
     (case post E (endpoint (signin_request E)) (payload (signin_request E)) s of
        (Inl e, s1) \<Rightarrow> (Inl e, s1)
      | (Inr resp, s1) \<Rightarrow>
          if check_captcha (body_text resp)
          then (Inr (False, PDict [(''error'', PStr ''captcha_detected'')]), s1)
          else
          (case body_json resp of
             None \<Rightarrow> (Inr (False, PDict [(''error'', PStr ''invalid_json'')]), s1)
           | Some data \<Rightarrow>
              (case py_get data ''result'' (PBool False) of
                 Inl e \<Rightarrow> (Inl e, s1)
               | Inr ok \<Rightarrow>
                   if truthy ok
                   then (Inr (True, data), (save_session_to_redis E s1)\<lparr>is_logged_in := True\<rparr>)
                   else
                   (case login_error_msg data of
                      Inl e \<Rightarrow> (Inl e, s1)
                    | Inr error_msg \<Rightarrow> (Inr (False, data), s1)))))"

text \<open>
  \<open>login\<close>: the scraper is created on first use; whatever the \<open>try\<close> raises comes back
  as \<open>(False, {"error": str(e)})\<close>.
\<close>

definition login :: "env \<Rightarrow> api_state \<Rightarrow> (bool \<times> pyval) \<times> api_state" where
  "login E s =
     (case login_try E (if scraper s = None then init_scraper E s else s) of
        (Inl e, s1) \<Rightarrow> ((False, PDict [(''error'', PStr (exc_str e))]), s1)
      | (Inr r, s1) \<Rightarrow> (r, s1))"

text \<open>The text of the fatal error: the bytes of U+274C, then the message.\<close>

definition FAILED_TO_LOGIN :: string where
  "FAILED_TO_LOGIN = [CHR 0xE2, CHR 0x9D, CHR 0x8C] @ '' Failed to login: ''"

text \<open>
  \<open>ensure_login\<close>. The default of the outer \<open>get\<close> is evaluated before the call, as
  Python evaluates arguments.
\<close>

definition ensure_login :: "env \<Rightarrow> api_state \<Rightarrow> (py_error + bool) \<times> api_state" where
  "ensure_login E s =
     (let s0 = (if scraper s = None then init_scraper E s else s) in
      case (if is_logged_in s0 then is_session_valid E s0 else (Inr False, s0)) of
        (Inl e, s1) \<Rightarrow> (Inl e, s1)
      | (Inr valid, s1) \<Rightarrow>
          if valid then (Inr True, s1)
          else
          (case login E s1 of
             ((success, data), s2) \<Rightarrow>
               if success then (Inr True, s2)
               else
               (case and_then (login_error_msg data) (py_get data ''error'') of
                  Inl e \<Rightarrow> (Inl e, s2)
                | Inr error_msg \<Rightarrow>
                    (Inl (Exc RuntimeError (FAILED_TO_LOGIN @ py_str error_msg)), s2))))"

subsection \<open>The retry decorator\<close>

type_synonym operation = "api_state \<Rightarrow> (py_error + pyval) \<times> api_state"

text \<open>
  \<open>status = result[0] if isinstance(result, tuple) and len(result) > 0 else 0\<close> and
  \<open>data = result[1] if isinstance(result, tuple) and len(result) > 1 else {}\<close>
\<close>

definition result_status :: "pyval \<Rightarrow> pyval" where
  "result_status result = (case result of PTuple (x # xs) \<Rightarrow> x | _ \<Rightarrow> PInt 0)"

definition result_data :: "pyval \<Rightarrow> pyval" where
  "result_data result = (case result of PTuple (x # y # ys) \<Rightarrow> y | _ \<Rightarrow> PDict [])"

text \<open>
  The two tests of the wrapper that lead to a retry: \<open>result is None\<close>, and
  \<open>status != 200 or (isinstance(data, dict) and not data.get("result", True)) or
  captcha_like\<close>. Both branches do the same three things, so the wrapper below asks
  one question.
\<close>

definition classified_failed :: "pyval \<Rightarrow> bool" where
  "classified_failed result =
     (if result = PNone then True
      else
        (let status = result_status result;
             data = result_data result;
             data_str = lower (py_str data)
         in \<not> py_eq_200 status
            \<or> (case data of
                  PDict kvs \<Rightarrow>
                    \<not> truthy (case map_of kvs ''result'' of Some v \<Rightarrow> v | None \<Rightarrow> PBool True)
                | _ \<Rightarrow> False)
            \<or> captcha_like data_str))"

text \<open>
  \<open>with_retry(func)\<close>, with the outcomes of the invocations of \<open>func\<close> listed in the
  order they happen (the second component). An exception of \<open>ensure_login\<close> or of
  \<open>func\<close> is not caught by the wrapper.
\<close>

definition with_retry_traced ::
  "env \<Rightarrow> operation \<Rightarrow> api_state \<Rightarrow> ((py_error + pyval) \<times> api_state) \<times> (py_error + pyval) list" where
  "with_retry_traced E func s =
     (case ensure_login E s of
        (Inl e, s1) \<Rightarrow> ((Inl e, s1), [])
      | (Inr ok, s1) \<Rightarrow>
          (case func s1 of
             (Inl e, s2) \<Rightarrow> ((Inl e, s2), [Inl e])
           | (Inr result, s2) \<Rightarrow>
               if classified_failed result
               then
                 (case ensure_login E (clear_session_in_redis s2) of
                    (Inl e, s3) \<Rightarrow> ((Inl e, s3), [Inr result])
                  | (Inr ok', s3) \<Rightarrow> (func s3, [Inr result, fst (func s3)]))
               else ((Inr result, s2), [Inr result])))"

definition with_retry :: "env \<Rightarrow> operation \<Rightarrow> operation" where
  "with_retry E func s = fst (with_retry_traced E func s)"

text \<open>
  What the remote service sees of the operations themselves: the requests posted so far
  that are not sign-ins.
\<close>

definition operation_requests :: "api_state \<Rightarrow> request list" where
  "operation_requests s = filter (\<lambda>r. endpoint r \<noteq> ORIGIN @ ENDPOINTS ''signin'') (sent s)"

subsection \<open>Remote operations\<close>

definition json_or_empty :: "response \<Rightarrow> pyval" where
  "json_or_empty resp = (case body_json resp of None \<Rightarrow> PDict [] | Some data \<Rightarrow> data)"

definition deposit_to_player_func :: "env \<Rightarrow> string \<Rightarrow> pyval \<Rightarrow> operation" where
  "deposit_to_player_func E player_id amount s =
     (case post E (ORIGIN @ ENDPOINTS ''deposit'')
             (PDict [(''amount'', amount), (''comment'', PNone), (''playerId'', PStr player_id),
                     (''currencyCode'', PStr ''NSP''), (''currency'', PStr ''NSP''),
                     (''moneyStatus'', PInt 5)]) s of
        (Inl e, s1) \<Rightarrow> (Inl e, s1)
      | (Inr resp, s1) \<Rightarrow> (Inr (PTuple [PInt (status_code resp), json_or_empty resp]), s1))"

definition deposit_to_player :: "env \<Rightarrow> string \<Rightarrow> pyval \<Rightarrow> operation" where
  "deposit_to_player E player_id amount = with_retry E (deposit_to_player_func E player_id amount)"

text \<open>
  \<open>float(x)\<close>. An integer up to 2^53 in size converts exactly and prints with
  \<open>.0\<close>; larger integers and strings are converted by the environment.
\<close>

definition py_float :: "env \<Rightarrow> pyval \<Rightarrow> py_error + pyval" where
  "py_float E v =
     (case v of
        PFloat r \<Rightarrow> Inr (PFloat r)
      | PBool b \<Rightarrow> Inr (PFloat (if b then ''1.0'' else ''0.0''))
      | PInt i \<Rightarrow>
          if \<bar>i\<bar> \<le> 9007199254740992 then Inr (PFloat (str_int i @ ''.0''))
          else (case float_of_int E i of
                  Some r \<Rightarrow> Inr (PFloat r)
                | None \<Rightarrow> Inl (Exc OverflowError ''int too large to convert to float''))
      | PStr t \<Rightarrow>
          (case float_of_str E t of
             Some r \<Rightarrow> Inr (PFloat r)
           | None \<Rightarrow> Inl (Exc ValueError (''could not convert string to float: '' @ repr_str t)))
      | _ \<Rightarrow>
          Inl (Exc TypeError
            (''float() argument must be a string or a real number, not '' @ quoted (type_name v))))"

text \<open>
  \<open>get_player_balance\<close>: only \<open>resp.json()\<close> is inside the \<open>try\<close>; the lookups
  after it are not.
\<close>

definition get_player_balance_func :: "env \<Rightarrow> string \<Rightarrow> operation" where
  "get_player_balance_func E player_id s =
     (case post E (ORIGIN @ ENDPOINTS ''balance'') (PDict [(''playerId'', PStr player_id)]) s of
        (Inl e, s1) \<Rightarrow> (Inl e, s1)
      | (Inr resp, s1) \<Rightarrow>
          (case body_json resp of
             None \<Rightarrow> (Inr (PTuple [PInt (status_code resp), PDict [], PFloat ''0.0'']), s1)
           | Some data \<Rightarrow>
              (and_then (py_get data ''result'' (PList [])) (\<lambda>results.
               and_then (case results of
                           PList (r0 # rs) \<Rightarrow> py_get r0 ''balance'' (PInt 0)
                         | _ \<Rightarrow> Inr (PInt 0)) (\<lambda>balance.
               and_then (py_float E balance) (\<lambda>b.
               Inr (PTuple [PInt (status_code resp), data, b])))), s1)))"

definition get_player_balance :: "env \<Rightarrow> string \<Rightarrow> operation" where
  "get_player_balance E player_id = with_retry E (get_player_balance_func E player_id)"

text \<open>What a \<open>for\<close> loop walks through.\<close>

definition py_iter :: "pyval \<Rightarrow> py_error + pyval list" where
  "py_iter v =
     (case v of
        PList xs \<Rightarrow> Inr xs
      | PTuple xs \<Rightarrow> Inr xs
      | PDict kvs \<Rightarrow> Inr (map (\<lambda>kv. PStr (fst kv)) kvs)
      | PStr t \<Rightarrow> Inr (map (\<lambda>c. PStr [c]) t)
      | _ \<Rightarrow> Inl (Exc TypeError (quoted (type_name v) @ '' object is not iterable'')))"

text \<open>\<open>data = resp.json(); records = data.get("result", {}).get("records", [])\<close>\<close>

definition response_records :: "response \<Rightarrow> py_error + pyval" where
  "response_records resp =
     (case body_json resp of
        None \<Rightarrow> Inl (Exc JSONDecodeError ''Expecting value'')
      | Some data \<Rightarrow>
          and_then (py_get data ''result'' (PDict [])) (\<lambda>res. py_get res ''records'' (PList [])))"

text \<open>\<open>for record in records: if record.get(key) == wanted: return ...\<close>\<close>

fun find_record :: "string \<Rightarrow> string \<Rightarrow> pyval list \<Rightarrow> py_error + pyval option" where
  "find_record k wanted [] = Inr None"
| "find_record k wanted (r # rs) =
     (case py_get r k PNone of
        Inl e \<Rightarrow> Inl e
      | Inr v \<Rightarrow> if v = PStr wanted then Inr (Some r) else find_record k wanted rs)"

definition statistics_filter :: "(string \<times> pyval) list \<Rightarrow> pyval" where
  "statistics_filter f = PDict [(''page'', PInt 1), (''pageSize'', PInt 100), (''filter'', PDict f)]"

text \<open>\<open>check_email_exists\<close> carries no decorator in the source.\<close>

definition check_email_exists :: "env \<Rightarrow> string \<Rightarrow> api_state \<Rightarrow> (py_error + bool) \<times> api_state" where
  "check_email_exists E email s =
     (case post E (ORIGIN @ ENDPOINTS ''statistics'') (statistics_filter [(''email'', PStr email)]) s of
        (Inl e, s1) \<Rightarrow> (Inl e, s1)
      | (Inr resp, s1) \<Rightarrow>
          (case and_then (response_records resp) (\<lambda>records.
                and_then (py_iter records) (find_record ''email'' email)) of
             Inr (Some r) \<Rightarrow> (Inr True, s1)
           | _ \<Rightarrow> (Inr False, s1)))"

definition check_player_exists_func :: "env \<Rightarrow> string \<Rightarrow> operation" where
  "check_player_exists_func E login_name s =
     (case post E (ORIGIN @ ENDPOINTS ''statistics'') (statistics_filter [(''login'', PStr login_name)]) s of
        (Inl e, s1) \<Rightarrow> (Inl e, s1)
      | (Inr resp, s1) \<Rightarrow>
          (case and_then (response_records resp) (\<lambda>records.
                and_then (py_iter records) (find_record ''username'' login_name)) of
             Inr (Some r) \<Rightarrow> (Inr (PBool True), s1)
           | _ \<Rightarrow> (Inr (PBool False), s1)))"

definition check_player_exists :: "env \<Rightarrow> string \<Rightarrow> operation" where
  "check_player_exists E login_name = with_retry E (check_player_exists_func E login_name)"

definition get_player_id_by_login_func :: "env \<Rightarrow> string \<Rightarrow> operation" where
  "get_player_id_by_login_func E login_name s =
     (case post E (ORIGIN @ ENDPOINTS ''statistics'') (statistics_filter [(''login'', PStr login_name)]) s of
        (Inl e, s1) \<Rightarrow> (Inl e, s1)
      | (Inr resp, s1) \<Rightarrow>
          (case and_then (response_records resp) (\<lambda>records.
                and_then (py_iter records) (find_record ''username'' login_name)) of
             Inr (Some r) \<Rightarrow>
               (case py_get r ''playerId'' PNone of
                  Inl e \<Rightarrow> (Inr PNone, s1)
                | Inr player_id \<Rightarrow> (Inr player_id, s1))
           | _ \<Rightarrow> (Inr PNone, s1)))"

definition get_player_id_by_login :: "env \<Rightarrow> string \<Rightarrow> operation" where
  "get_player_id_by_login E login_name = with_retry E (get_player_id_by_login_func E login_name)"

definition get_all_players_func :: "env \<Rightarrow> operation" where
  "get_all_players_func E s =
     (case post E (ORIGIN @ ENDPOINTS ''statistics'') (statistics_filter []) s of
        (Inl e, s1) \<Rightarrow> (Inl e, s1)
      | (Inr resp, s1) \<Rightarrow>
          (case response_records resp of
             Inl e \<Rightarrow> (Inr (PList []), s1)
           | Inr records \<Rightarrow> (Inr records, s1)))"

definition get_all_players :: "env \<Rightarrow> operation" where
  "get_all_players E = with_retry E (get_all_players_func E)"

subsection \<open>The e-mail loop of \<open>create_player_with_credentials\<close>\<close>

text \<open>\<open>random.randint(1000, 9999)\<close>: the next draw, brought into the range.\<close>

definition randint_1000_9999 :: "env \<Rightarrow> api_state \<Rightarrow> int \<times> api_state" where
  "randint_1000_9999 E s = (1000 + randint_at E (draws s) mod 9000, s\<lparr>draws := Suc (draws s)\<rparr>)"

text \<open>
  \<open>while self.check_email_exists(email): email = f"{login}_{random_suffix}@TSA.com"\<close>.
  The loop has no counter. The first argument bounds the number of probes the model
  follows: \<open>None\<close> says that the loop is still running after that many.
\<close>

fun unique_email ::
  "nat \<Rightarrow> env \<Rightarrow> string \<Rightarrow> string \<Rightarrow> api_state \<Rightarrow> ((py_error + string) \<times> api_state) option" where
  "unique_email 0 E login_name email s = None"
| "unique_email (Suc fuel) E login_name email s =
     (case check_email_exists E email s of
        (Inl e, s1) \<Rightarrow> Some (Inl e, s1)
      | (Inr taken, s1) \<Rightarrow>
          if taken
          then (case randint_1000_9999 E s1 of
                  (random_suffix, s2) \<Rightarrow>
                    unique_email fuel E login_name
                      (login_name @ ''_'' @ str_int random_suffix @ ''@TSA.com'') s2)
          else Some (Inr email, s1))"

definition first_email :: "string \<Rightarrow> string" where
  "first_email login_name = login_name @ ''@TSA.com''"

text \<open>
  The function that \<open>create_player_with_credentials\<close> decorates: the loop, the
  registration request, then the id lookup (itself a wrapped operation). It returns
  \<open>(status_code, data, player_id, email)\<close>; \<open>None\<close> again says that the loop is still
  running.
\<close>

definition create_player_with_credentials_func ::
  "nat \<Rightarrow> env \<Rightarrow> string \<Rightarrow> string \<Rightarrow> api_state \<Rightarrow> ((py_error + pyval) \<times> api_state) option" where
  "create_player_with_credentials_func fuel E login_name pwd s =
     (case unique_email fuel E login_name (first_email login_name) s of
        None \<Rightarrow> None
      | Some (Inl e, s1) \<Rightarrow> Some (Inl e, s1)
      | Some (Inr email, s1) \<Rightarrow>
          Some
            (case post E (ORIGIN @ ENDPOINTS ''create'')
                    (PDict [(''player'',
                       PDict [(''email'', PStr email), (''password'', PStr pwd),
                              (''parentId'', PStr (PARENT_ID E)), (''login'', PStr login_name)])]) s1 of
               (Inl e, s2) \<Rightarrow> (Inl e, s2)
             | (Inr resp, s2) \<Rightarrow>
                 (case get_player_id_by_login E login_name s2 of
                    (Inl e, s3) \<Rightarrow> (Inl e, s3)
                  | (Inr player_id, s3) \<Rightarrow>
                      (Inr (PTuple [PInt (status_code resp), json_or_empty resp, player_id, PStr email]),
                       s3))))"

section \<open>Username generation (the provisioning flow)\<close>

text \<open>\<open>_random_suffix()\<close>: three draws from the 36 lower-case letters and digits.\<close>

definition random_suffix :: "env \<Rightarrow> api_state \<Rightarrow> string \<times> api_state" where
  "random_suffix E s =
     (map (\<lambda>j. ''abcdefghijklmnopqrstuvwxyz0123456789'' ! nat (randint_at E (draws s + j) mod 36)) [0, 1, 2],
      s\<lparr>draws := draws s + 3\<rparr>)"

text \<open>The text of the \<open>ValueError\<close> (UTF-8 bytes; it says that the name is not available).\<close>

definition USERNAME_UNAVAILABLE :: string where
  "USERNAME_UNAVAILABLE =
     [CHR 0xE2, CHR 0x9D, CHR 0x8C, CHR 0x20, CHR 0xD8, CHR 0xA7, CHR 0xD8, CHR 0xB3,
      CHR 0xD9, CHR 0x85, CHR 0x20, CHR 0xD8, CHR 0xA7, CHR 0xD9, CHR 0x84, CHR 0xD9,
      CHR 0x85, CHR 0xD8, CHR 0xB3, CHR 0xD8, CHR 0xAA, CHR 0xD8, CHR 0xAE, CHR 0xD8,
      CHR 0xAF, CHR 0xD9, CHR 0x85, CHR 0x20, CHR 0xD8, CHR 0xBA, CHR 0xD9, CHR 0x8A,
      CHR 0xD8, CHR 0xB1, CHR 0x20, CHR 0xD9, CHR 0x85, CHR 0xD8, CHR 0xAA, CHR 0xD8,
      CHR 0xA7, CHR 0xD8, CHR 0xAD, CHR 0xD8, CHR 0x8C, CHR 0x20, CHR 0xD8, CHR 0xAC,
      CHR 0xD8, CHR 0xB1, CHR 0xD9, CHR 0x91, CHR 0xD8, CHR 0xA8, CHR 0x20, CHR 0xD8,
      CHR 0xA7, CHR 0xD8, CHR 0xB3, CHR 0xD9, CHR 0x85, CHR 0xD9, CHR 0x8B, CHR 0xD8,
      CHR 0xA7, CHR 0x20, CHR 0xD8, CHR 0xA2, CHR 0xD8, CHR 0xAE, CHR 0xD8, CHR 0xB1]"

text \<open>
  \<open>for i in range(6)\<close>: \<open>i\<close> is the loop index and the next argument the number of
  rounds left. The existence check is the argument \<open>check\<close>; the second component of
  the result lists the names probed, each with the check's outcome.
\<close>

fun username_loop ::
  "env \<Rightarrow> (string \<Rightarrow> operation) \<Rightarrow> string \<Rightarrow> nat \<Rightarrow> nat \<Rightarrow> api_state \<Rightarrow>
     ((py_error + string) \<times> api_state) \<times> (string \<times> (py_error + pyval)) list" where
  "username_loop E check base i 0 s = ((Inl (Exc ValueError USERNAME_UNAVAILABLE), s), [])"
| "username_loop E check base i (Suc n) s =
     (case (if i = 0 then (base, s)
            else (case random_suffix E s of (x, s') \<Rightarrow> (base @ ''_'' @ x, s'))) of
        (username, s1) \<Rightarrow>
          (case check username s1 of
             (Inl e, s2) \<Rightarrow> ((Inl e, s2), [(username, Inl e)])
           | (Inr v, s2) \<Rightarrow>
               if \<not> truthy v then ((Inr username, s2), [(username, Inr v)])
               else (case username_loop E check base (Suc i) n s2 of
                       (r, probes) \<Rightarrow> (r, (username, Inr v) # probes))))"

definition generate_username_traced ::
  "env \<Rightarrow> (string \<Rightarrow> operation) \<Rightarrow> string \<Rightarrow> api_state \<Rightarrow>
     ((py_error + string) \<times> api_state) \<times> (string \<times> (py_error + pyval)) list" where
  "generate_username_traced E check raw_username s =
     username_loop E check (''ZEUS_'' @ raw_username) 0 6 s"

definition generate_username :: "env \<Rightarrow> string \<Rightarrow> api_state \<Rightarrow> (py_error + string) \<times> api_state" where
  "generate_username E raw_username s =
     fst (generate_username_traced E (check_player_exists E) raw_username s)"

section \<open>Example surroundings\<close>

text \<open>
  A clock that stands at 2024-01-01T12:00:00, with the two library functions given on
  the few timestamps the examples store; an agent panel that accepts the sign-in and
  answers every other request with status 403.
\<close>

definition NOON :: int where
  "NOON = 63839707200000000"

definition example_isoformat :: "int \<Rightarrow> string" where
  "example_isoformat t =
     (if t = NOON then ''2024-01-01T12:00:00''
      else if t = NOON + 1800000000 then ''2024-01-01T12:30:00''
      else if t = NOON - 3600000000 then ''2024-01-01T11:00:00''
      else ''0001-01-01T00:00:00'')"

definition example_fromisoformat :: "string \<Rightarrow> pydatetime option" where
  "example_fromisoformat t =
     (if t = ''2024-01-01T12:00:00'' then Some (Naive NOON)
      else if t = ''2024-01-01T12:30:00'' then Some (Naive (NOON + 1800000000))
      else if t = ''2024-01-01T11:00:00'' then Some (Naive (NOON - 3600000000))
      else if t = ''2024-01-01T12:30:00+00:00'' then Some (Aware (NOON + 1800000000))
      else None)"

definition signin_ok :: response where
  "signin_ok =
     \<lparr>status_code = 200, body_text = ''{\"result\": true}'',
      body_json = Some (PDict [(''result'', PBool True)]), set_cookie = Map.empty\<rparr>"

definition forbidden :: response where
  "forbidden =
     \<lparr>status_code = 403, body_text = ''Forbidden'', body_json = None, set_cookie = Map.empty\<rparr>"

definition example_env :: env where
  "example_env =
     \<lparr>AGENT_USERNAME = ''agent@example.com'', AGENT_PASSWORD = ''secret'', PARENT_ID = ''2307909'',
      SESSION_DURATION_MIN = 30, MAX_SESSION_AGE_HOURS = 2,
      utcnow_at = (\<lambda>k. NOON),
      post_at = (\<lambda>k req. if endpoint req = ORIGIN @ ENDPOINTS ''signin'' then Inr signin_ok
                           else Inr forbidden),
      randint_at = (\<lambda>k. int k),
      fromisoformat = example_fromisoformat,
      isoformat = example_isoformat,
      cookies_loads = (\<lambda>t. Some Map.empty),
      cookies_dumps = (\<lambda>jar. ''{}''),
      float_of_int = (\<lambda>i. None),
      float_of_str = (\<lambda>t. None)\<rparr>"

text \<open>The object as \<open>__init__\<close> leaves it, on an empty store.\<close>

definition fresh_state :: api_state where
  "fresh_state =
     \<lparr>scraper = None, is_logged_in = False, redis = Map.empty, ticks = 0, sent = [], draws = 0\<rparr>"



text \<open>An object whose scraper exists, on an empty store; and one whose session was cleared.\<close>

definition ready_state :: api_state where
  "ready_state = fresh_state\<lparr>scraper := Some Map.empty\<rparr>"

definition logged_out_state :: api_state where
  "logged_out_state = clear_session_in_redis (init_scraper example_env fresh_state)"

text \<open>
  Panels that answer every request with a challenge page, with a body that is not JSON,
  or not at all; one that accepts every request; and one that accepts the sign-in and
  answers the rest with the JSON array \<open>[]\<close>.
\<close>

definition challenge_page :: response where
  "challenge_page =
     \<lparr>status_code = 403, body_text = ''<title>Just a moment...</title> Cloudflare'',
      body_json = None, set_cookie = Map.empty\<rparr>"

definition challenge_env :: env where
  "challenge_env = example_env\<lparr>post_at := (\<lambda>k req. Inr challenge_page)\<rparr>"

definition undecodable_env :: env where
  "undecodable_env = example_env\<lparr>post_at := (\<lambda>k req. Inr forbidden)\<rparr>"

definition refused_env :: env where
  "refused_env = example_env\<lparr>post_at := (\<lambda>k req. Inl ''Connection refused'')\<rparr>"

definition accepted :: response where
  "accepted =
     \<lparr>status_code = 200, body_text = ''{\"result\": true}'',
      body_json = Some (PDict [(''result'', PBool True)]), set_cookie = Map.empty\<rparr>"

definition accepting_env :: env where
  "accepting_env = example_env\<lparr>post_at := (\<lambda>k req. Inr accepted)\<rparr>"

definition array_body :: response where
  "array_body =
     \<lparr>status_code = 200, body_text = ''[]'', body_json = Some (PList []), set_cookie = Map.empty\<rparr>"

definition array_body_env :: env where
  "array_body_env =
     example_env\<lparr>post_at := (\<lambda>k req.
        if endpoint req = ORIGIN @ ENDPOINTS ''signin'' then Inr signin_ok else Inr array_body)\<rparr>"

text \<open>
  A statistics answer listing the given records (its text is not read by the
  operations), and the e-mail a statistics request filters on. \<open>busy_env n\<close> reports
  the e-mail asked for as taken in the first \<open>n\<close> requests and as free afterwards;
  \<open>echo_env\<close> reports it as taken every time.
\<close>

definition records_response :: "pyval list \<Rightarrow> response" where
  "records_response rs =
     \<lparr>status_code = 200, body_text = [],
      body_json = Some (PDict [(''result'', PDict [(''records'', PList rs)])]),
      set_cookie = Map.empty\<rparr>"

definition filter_email :: "request \<Rightarrow> pyval" where
  "filter_email req =
     (case payload req of
        PDict kvs \<Rightarrow>
          (case map_of kvs ''filter'' of
             Some (PDict f) \<Rightarrow> (case map_of f ''email'' of Some v \<Rightarrow> v | None \<Rightarrow> PNone)
           | _ \<Rightarrow> PNone)
      | _ \<Rightarrow> PNone)"

definition busy_env :: "nat \<Rightarrow> env" where
  "busy_env n =
     example_env\<lparr>post_at := (\<lambda>k req.
        if k < n then Inr (records_response [PDict [(''email'', filter_email req)]])
        else Inr (records_response []))\<rparr>"

definition echo_env :: env where
  "echo_env =
     example_env\<lparr>post_at := (\<lambda>k req. Inr (records_response [PDict [(''email'', filter_email req)]]))\<rparr>"

text \<open>Existence checks for the username loop: every name taken, or the names of a list.\<close>

definition always_taken :: "string \<Rightarrow> operation" where
  "always_taken name s = (Inr (PBool True), s)"

definition taken_check :: "string list \<Rightarrow> string \<Rightarrow> operation" where
  "taken_check taken name s = (Inr (PBool (name \<in> set taken)), s)"

section \<open>The specification's reading of the failure test\<close>


section \<open>Auxiliary facts\<close>

subsection \<open>What each step leaves alone\<close>

lemma is_session_valid_state:
  "snd (is_session_valid E s) = s \<or> snd (is_session_valid E s) = s\<lparr>ticks := Suc (ticks s)\<rparr>"
  by (simp add: is_session_valid_def utcnow_def split: option.splits)


lemma is_session_valid_frame:
  "sent (snd (is_session_valid E s)) = sent s"
  "scraper (snd (is_session_valid E s)) = scraper s"
  "redis (snd (is_session_valid E s)) = redis s"
  "is_logged_in (snd (is_session_valid E s)) = is_logged_in s"
  using is_session_valid_state [of E s] by auto


lemma init_scraper_frame:
  "scraper (init_scraper E s) \<noteq> None"
  "sent (init_scraper E s) = sent s"
  "redis (init_scraper E s) = redis s"
  by (auto simp: init_scraper_def Let_def is_session_valid_frame split_beta split: option.splits)

lemma init_scraper_Some: "\<exists>jar. scraper (init_scraper E s) = Some jar"
  using init_scraper_frame(1) [of E s] by auto


lemma post_sent:
  "scraper s \<noteq> None \<Longrightarrow>
   sent (snd (post E u p s)) = sent s @ [\<lparr>endpoint = u, payload = p\<rparr>]"
  by (auto simp: post_def Let_def split: option.splits sum.splits)

lemma post_outcome:
  "scraper s \<noteq> None \<Longrightarrow>
   fst (post E u p s) =
     (case post_at E (length (sent s)) \<lparr>endpoint = u, payload = p\<rparr> of
        Inl m \<Rightarrow> Inl (Exc TransportError m) | Inr resp \<Rightarrow> Inr resp)"
  by (auto simp: post_def Let_def split: option.splits sum.splits)

lemma post_scraper: "scraper s \<noteq> None \<Longrightarrow> scraper (snd (post E u p s)) \<noteq> None"
  by (auto simp: post_def Let_def split: option.splits sum.splits)

lemma save_session_frame:
  "sent (save_session_to_redis E s) = sent s"
  by (auto simp: save_session_to_redis_def utcnow_def split: option.splits sum.splits prod.splits)

lemma signin_request_eta:
  "\<lparr>endpoint = endpoint (signin_request E), payload = payload (signin_request E)\<rparr> = signin_request E"
  by simp

lemma post_signin:
  "scraper s \<noteq> None \<Longrightarrow>
   fst (post E (endpoint (signin_request E)) (payload (signin_request E)) s) =
     (case post_at E (length (sent s)) (signin_request E) of
        Inl m \<Rightarrow> Inl (Exc TransportError m) | Inr resp \<Rightarrow> Inr resp)"
  using post_outcome [of s E "endpoint (signin_request E)" "payload (signin_request E)"]
  by (simp add: signin_request_eta)

subsection \<open>Login\<close>

lemma login_try_sent:
  "scraper s \<noteq> None \<Longrightarrow> sent (snd (login_try E s)) = sent s @ [signin_request E]"
  using post_sent [of s E "endpoint (signin_request E)" "payload (signin_request E)"]
  by (auto simp: login_try_def save_session_frame split_beta split: sum.splits option.splits)

lemma login_sent: "sent (snd (login E s)) = sent s @ [signin_request E]"
  using login_try_sent [of s E] login_try_sent [of "init_scraper E s" E]
  by (auto simp: login_def init_scraper_frame split_beta split: sum.splits)

lemma login_try_outcome:
  assumes "scraper s \<noteq> None"
  shows "(\<forall>m. post_at E (length (sent s)) (signin_request E) = Inl m \<longrightarrow>
            fst (login_try E s) = Inl (Exc TransportError m))
       \<and> (\<forall>resp. post_at E (length (sent s)) (signin_request E) = Inr resp \<and>
              check_captcha (body_text resp) \<longrightarrow>
            fst (login_try E s) = Inr (False, PDict [(''error'', PStr ''captcha_detected'')]))
       \<and> (\<forall>resp. post_at E (length (sent s)) (signin_request E) = Inr resp \<and>
              \<not> check_captcha (body_text resp) \<and> body_json resp = None \<longrightarrow>
            fst (login_try E s) = Inr (False, PDict [(''error'', PStr ''invalid_json'')]))"
  by (simp add: login_try_def split_beta post_signin [OF assms])





lemma ensure_login_sent:
  "sent (snd (ensure_login E s)) = sent s \<or> sent (snd (ensure_login E s)) = sent s @ [signin_request E]"
proof -
  define s0 where "s0 = (if scraper s = None then init_scraper E s else s)"
  have s0: "sent s0 = sent s"
    by (simp add: s0_def init_scraper_frame)
  obtain v s1 where iv: "(if is_logged_in s0 then is_session_valid E s0 else (Inr False, s0)) = (v, s1)"
    by (metis prod.exhaust)
  then have s1: "sent s1 = sent s"
    using s0 is_session_valid_frame(1) [of E s0] by (auto split: if_splits)
  have "sent (snd (ensure_login E s)) = sent s1 \<or> sent (snd (ensure_login E s)) = sent (snd (login E s1))"
    using iv by (auto simp: ensure_login_def [of E s] s0_def [symmetric] split_beta split: sum.splits)
  with s1 login_sent [of E s1] show ?thesis by auto
qed

subsection \<open>The requests of one wrapped call\<close>

lemma ensure_login_operation_requests:
  "operation_requests (snd (ensure_login E s)) = operation_requests s"
  using ensure_login_sent [of E s]
  by (auto simp: operation_requests_def signin_request_def)

lemma clear_session_operation_requests:
  "operation_requests (clear_session_in_redis s) = operation_requests s"
  by (simp add: operation_requests_def clear_session_in_redis_def)

lemma with_retry_requests:
  assumes "\<forall>t. length (operation_requests (snd (func t))) \<le> Suc (length (operation_requests t))"
  shows "length (operation_requests (snd (with_retry E func s))) \<le> length (operation_requests s) + 2"
proof -
  let ?s1 = "snd (ensure_login E s)"
  let ?s2 = "snd (func ?s1)"
  let ?s3 = "snd (ensure_login E (clear_session_in_redis ?s2))"
  let ?s4 = "snd (func ?s3)"
  have a: "length (operation_requests ?s1) = length (operation_requests s)"
    by (simp add: ensure_login_operation_requests)
  have b: "length (operation_requests ?s2) \<le> Suc (length (operation_requests s))"
    using assms [rule_format, of ?s1] a by simp
  have c: "length (operation_requests ?s3) \<le> Suc (length (operation_requests s))"
    using b by (simp add: ensure_login_operation_requests clear_session_operation_requests)
  have d: "length (operation_requests ?s4) \<le> length (operation_requests s) + 2"
    using assms [rule_format, of ?s3] c by simp
  have "snd (with_retry E func s) \<in> {?s1, ?s2, ?s3, ?s4}"
    by (auto simp: with_retry_def with_retry_traced_def split_beta split: sum.splits)
  with a b c d show ?thesis by auto
qed

lemma deposit_requests:
  "length (operation_requests (snd (deposit_to_player_func E player_id amount t)))
     \<le> Suc (length (operation_requests t))"
  by (auto simp: deposit_to_player_func_def post_def operation_requests_def Let_def split_beta
      split: option.splits sum.splits)


subsection \<open>Saving the session\<close>





subsection \<open>Answers that do not decode\<close>

text \<open>
  Once the request has been answered, a body that is not JSON makes every operation
  return its default; the operations that scan the records never raise, whatever the
  body decodes to.
\<close>

lemma check_email_exists_undecodable:
  "fst (post E (ORIGIN @ ENDPOINTS ''statistics'') (statistics_filter [(''email'', PStr email)]) s) = Inr resp
   \<Longrightarrow> body_json resp = None \<Longrightarrow> fst (check_email_exists E email s) = Inr False"
  by (simp add: check_email_exists_def split_beta response_records_def and_then_def)

lemma check_email_exists_total:
  "fst (post E (ORIGIN @ ENDPOINTS ''statistics'') (statistics_filter [(''email'', PStr email)]) s) = Inr resp
   \<Longrightarrow> \<exists>b. fst (check_email_exists E email s) = Inr b"
  by (auto simp: check_email_exists_def split_beta split: sum.splits option.splits)

lemma check_player_exists_undecodable:
  "fst (post E (ORIGIN @ ENDPOINTS ''statistics'') (statistics_filter [(''login'', PStr login_name)]) s) = Inr resp
   \<Longrightarrow> body_json resp = None \<Longrightarrow> fst (check_player_exists_func E login_name s) = Inr (PBool False)"
  by (simp add: check_player_exists_func_def split_beta response_records_def and_then_def)

lemma check_player_exists_total:
  "fst (post E (ORIGIN @ ENDPOINTS ''statistics'') (statistics_filter [(''login'', PStr login_name)]) s) = Inr resp
   \<Longrightarrow> \<exists>b. fst (check_player_exists_func E login_name s) = Inr (PBool b)"
  by (auto simp: check_player_exists_func_def split_beta split: sum.splits option.splits)

lemma get_player_id_by_login_undecodable:
  "fst (post E (ORIGIN @ ENDPOINTS ''statistics'') (statistics_filter [(''login'', PStr login_name)]) s) = Inr resp
   \<Longrightarrow> body_json resp = None \<Longrightarrow> fst (get_player_id_by_login_func E login_name s) = Inr PNone"
  by (simp add: get_player_id_by_login_func_def split_beta response_records_def and_then_def)

lemma get_all_players_undecodable:
  "fst (post E (ORIGIN @ ENDPOINTS ''statistics'') (statistics_filter []) s) = Inr resp
   \<Longrightarrow> body_json resp = None \<Longrightarrow> fst (get_all_players_func E s) = Inr (PList [])"
  by (simp add: get_all_players_func_def split_beta response_records_def)

lemma get_player_balance_undecodable:
  "fst (post E (ORIGIN @ ENDPOINTS ''balance'') (PDict [(''playerId'', PStr player_id)]) s) = Inr resp
   \<Longrightarrow> body_json resp = None
   \<Longrightarrow> fst (get_player_balance_func E player_id s)
         = Inr (PTuple [PInt (status_code resp), PDict [], PFloat ''0.0''])"
  by (simp add: get_player_balance_func_def split_beta)

text \<open>
  The balance of a decoded object whose result list is absent or empty, or whose first
  record has no balance, is 0.0.
\<close>

lemma get_player_balance_missing_fields:
  assumes "fst (post E (ORIGIN @ ENDPOINTS ''balance'') (PDict [(''playerId'', PStr player_id)]) s) = Inr resp"
    and "body_json resp = Some (PDict kvs)"
    and "map_of kvs ''result'' = None \<or> map_of kvs ''result'' = Some (PList [])
         \<or> (\<exists>r rs. map_of kvs ''result'' = Some (PList (PDict r # rs)) \<and> map_of r ''balance'' = None)"
  shows "fst (get_player_balance_func E player_id s)
         = Inr (PTuple [PInt (status_code resp), PDict kvs, PFloat ''0.0''])"
proof -
  have z: "py_float E (PInt 0) = Inr (PFloat ''0.0'')"
    by (simp add: py_float_def str_int_def str_nat.simps [of 0] digit_char_def)
  from assms z show ?thesis
    by (auto simp: get_player_balance_func_def split_beta and_then_def)
qed

subsection \<open>The two uniqueness loops\<close>

lemma random_suffix_length: "length (fst (random_suffix E s)) = 3"
  by (simp add: random_suffix_def)

lemma username_loop_props:
  "username_loop E check base i n s = ((res, s'), probes) \<Longrightarrow>
     length probes \<le> n
     \<and> (0 < n \<longrightarrow> probes \<noteq> []
          \<and> (if i = 0 then fst (hd probes) = base
              else \<exists>x. length x = 3 \<and> fst (hd probes) = base @ ''_'' @ x))
     \<and> (\<forall>p \<in> set (tl probes). \<exists>x. length x = 3 \<and> fst p = base @ ''_'' @ x)
     \<and> (\<forall>p \<in> set (butlast probes). \<exists>v. snd p = Inr v \<and> truthy v)
     \<and> (\<forall>u. res = Inr u \<longrightarrow>
           probes \<noteq> [] \<and> fst (last probes) = u \<and> (\<exists>v. snd (last probes) = Inr v \<and> \<not> truthy v))
     \<and> ((\<forall>p \<in> set probes. \<exists>v. snd p = Inr v \<and> truthy v) \<longrightarrow>
           length probes = n \<and> res = Inl (Exc ValueError USERNAME_UNAVAILABLE))"
proof (induction n arbitrary: i s res s' probes)
  case 0
  then show ?case by auto
next
  case (Suc n)
  define us where "us = (if i = 0 then (base, s)
       else (case random_suffix E s of (x, t) \<Rightarrow> (base @ ''_'' @ x, t)))"
  obtain username s1 where us_eq: "us = (username, s1)" by (cases us)
  have name: "if i = 0 then username = base
              else \<exists>x. length x = 3 \<and> username = base @ ''_'' @ x"
    using us_eq random_suffix_length [of E s]
    by (auto simp: us_def split_beta split: if_splits)
  obtain r s2 where ch: "check username s1 = (r, s2)" by (cases "check username s1")
  show ?case
  proof (cases r)
    case (Inl e)
    with Suc.prems us_eq ch name show ?thesis
      by (auto simp: us_def [symmetric])
  next
    case (Inr v)
    show ?thesis
    proof (cases "truthy v")
      case False
      with Suc.prems us_eq ch name Inr show ?thesis
        by (auto simp: us_def [symmetric])
    next
      case True
      obtain res' s'' probes' where rec: "username_loop E check base (Suc i) n s2 = ((res', s''), probes')"
        by (metis prod.exhaust)
      with Suc.prems us_eq ch Inr True
      have eq: "res = res'" "s' = s''" "probes = (username, Inr v) # probes'"
        by (auto simp: us_def [symmetric])
      note ih = Suc.IH [OF rec]
      have tl_ok: "\<forall>p \<in> set probes'. \<exists>x. length x = 3 \<and> fst p = base @ ''_'' @ x"
      proof (cases probes')
        case Nil
        then show ?thesis by simp
      next
        case (Cons q qs)
        then have "0 < n" using ih by auto
        with ih Cons show ?thesis by auto
      qed
      from ih eq name True tl_ok show ?thesis
        by (auto split: if_splits)
    qed
  qed
qed

lemma randint_scraper: "scraper (snd (randint_1000_9999 E s)) = scraper s"
  by (simp add: randint_1000_9999_def)

lemma randint_sent: "sent (snd (randint_1000_9999 E s)) = sent s"
  by (simp add: randint_1000_9999_def)

lemma check_email_scraper:
  "scraper s \<noteq> None \<Longrightarrow> scraper (snd (check_email_exists E email s)) \<noteq> None"
  using post_scraper [of s E "ORIGIN @ ENDPOINTS ''statistics''" "statistics_filter [(''email'', PStr email)]"]
  by (auto simp: check_email_exists_def split_beta split: sum.splits option.splits)

lemma unique_email_never_returns:
  assumes "\<forall>e t. scraper t \<noteq> None \<longrightarrow> fst (check_email_exists E e t) = Inr True"
  shows "scraper s \<noteq> None \<Longrightarrow> unique_email fuel E login_name email s = None"
proof (induction fuel arbitrary: email s)
  case 0
  show ?case by simp
next
  case (Suc fuel)
  obtain s1 where c: "check_email_exists E email s = (Inr True, s1)"
    using assms Suc.prems by (metis prod.collapse)
  then have "scraper s1 \<noteq> None"
    using check_email_scraper [OF Suc.prems, of E email] by simp
  then have "scraper (snd (randint_1000_9999 E s1)) \<noteq> None"
    by (simp add: randint_scraper)
  from Suc.IH [OF this] c show ?case
    by (simp add: split_beta)
qed

lemma unique_email_returns_free:
  "unique_email fuel E login_name email s = Some (Inr r, s') \<Longrightarrow>
   \<exists>t. check_email_exists E r t = (Inr False, s')"
proof (induction fuel arbitrary: email s)
  case 0
  then show ?case by simp
next
  case (Suc fuel)
  obtain c s1 where ch: "check_email_exists E email s = (c, s1)"
    by (cases "check_email_exists E email s")
  show ?case
  proof (cases c)
    case (Inl e)
    with Suc.prems ch show ?thesis by simp
  next
    case (Inr taken)
    show ?thesis
    proof (cases taken)
      case False
      with Suc.prems ch Inr show ?thesis by auto
    next
      case True
      with Suc.prems ch Inr show ?thesis
        by (auto simp: split_beta dest: Suc.IH)
    qed
  qed
qed

lemma check_email_echo:
  "scraper t \<noteq> None \<Longrightarrow> fst (check_email_exists echo_env e t) = Inr True"
  by (auto simp: check_email_exists_def post_def echo_env_def records_response_def
        filter_email_def statistics_filter_def response_records_def py_iter_def and_then_def Let_def)

lemma check_email_busy:
  "scraper t \<noteq> None \<Longrightarrow>
   fst (check_email_exists (busy_env n) e t) = Inr (length (sent t) < n)
   \<and> length (sent (snd (check_email_exists (busy_env n) e t))) = Suc (length (sent t))"
  by (auto simp: check_email_exists_def post_def busy_env_def records_response_def
        filter_email_def statistics_filter_def response_records_def py_iter_def and_then_def Let_def)

lemma unique_email_busy_running:
  "scraper s \<noteq> None \<Longrightarrow> length (sent s) + fuel \<le> n \<Longrightarrow>
   unique_email fuel (busy_env n) login_name email s = None"
proof (induction fuel arbitrary: email s)
  case 0
  show ?case by simp
next
  case (Suc fuel)
  let ?c = "check_email_exists (busy_env n) email s"
  from check_email_busy [OF Suc.prems(1), of n email] Suc.prems(2)
  have c: "fst ?c = Inr True" and l: "length (sent (snd ?c)) = Suc (length (sent s))"
    by auto
  let ?s2 = "snd (randint_1000_9999 (busy_env n) (snd ?c))"
  have "scraper ?s2 \<noteq> None"
    using check_email_scraper [OF Suc.prems(1), of "busy_env n" email] by (simp add: randint_scraper)
  moreover have "length (sent ?s2) + fuel \<le> n"
    using l Suc.prems(2) by (simp add: randint_sent)
  ultimately have "unique_email fuel (busy_env n) login_name
      (login_name @ ''_'' @ str_int (fst (randint_1000_9999 (busy_env n) (snd ?c))) @ ''@TSA.com'') ?s2 = None"
    by (rule Suc.IH)
  with c show ?case by (simp add: split_beta)
qed

lemma unique_email_busy_returns:
  "scraper s \<noteq> None \<Longrightarrow> length (sent s) + fuel = n \<Longrightarrow>
   \<exists>r s'. unique_email (Suc fuel) (busy_env n) login_name email s = Some (Inr r, s')"
proof (induction fuel arbitrary: email s)
  case 0
  from check_email_busy [OF 0(1), of n email] 0(2)
  have "fst (check_email_exists (busy_env n) email s) = Inr False" by simp
  then show ?case by (simp add: split_beta)
next
  case (Suc fuel)
  let ?c = "check_email_exists (busy_env n) email s"
  from check_email_busy [OF Suc.prems(1), of n email] Suc.prems(2)
  have c: "fst ?c = Inr True" and l: "length (sent (snd ?c)) = Suc (length (sent s))"
    by auto
  let ?s2 = "snd (randint_1000_9999 (busy_env n) (snd ?c))"
  have "scraper ?s2 \<noteq> None"
    using check_email_scraper [OF Suc.prems(1), of "busy_env n" email] by (simp add: randint_scraper)
  moreover have "length (sent ?s2) + fuel = n"
    using l Suc.prems(2) by (simp add: randint_sent)
  ultimately have "\<exists>r s'. unique_email (Suc fuel) (busy_env n) login_name
      (login_name @ ''_'' @ str_int (fst (randint_1000_9999 (busy_env n) (snd ?c))) @ ''@TSA.com'') ?s2
        = Some (Inr r, s')"
    by (rule Suc.IH)
  with c show ?case by (simp add: split_beta del: unique_email.simps(2)) (simp add: split_beta c)
qed

lemma unique_email_no_bound:
  "\<exists>E s. unique_email n E login_name email s = None
       \<and> (\<exists>r s'. unique_email (Suc n) E login_name email s = Some (Inr r, s'))"
proof -
  have sc: "scraper ready_state \<noteq> None" and se: "length (sent ready_state) + n = n"
    by (simp_all add: ready_state_def fresh_state_def)
  from se have "length (sent ready_state) + n \<le> n" by simp
  from unique_email_busy_running [OF sc this] unique_email_busy_returns [OF sc se]
  show ?thesis by blast
qed

section \<open>The retry wrapper\<close>

text \<open>
  C1. In one call of a wrapped operation the operation function runs at most twice.
  When it runs twice, the first outcome was a result classified as failed and the
  wrapper returns the second outcome, whatever it is. When it runs once, the wrapper
  returns that outcome, unless the outcome was classified as failed and the login
  before the retry raised. When it does not run at all, the first login raised.
  Seen from the remote service: when one run of the function posts at most one request
  of its own, one wrapped call posts at most two, since the logins around the runs
  post sign-ins only.
\<close>

theorem with_retry_at_most_twice:
  "length (snd (with_retry_traced E func s)) \<le> 2
   \<and> (\<forall>r1 r2. snd (with_retry_traced E func s) = [r1, r2] \<longrightarrow>
         (\<exists>v. r1 = Inr v \<and> classified_failed v) \<and> fst (with_retry E func s) = r2)
   \<and> (\<forall>r1. snd (with_retry_traced E func s) = [r1] \<longrightarrow>
         fst (with_retry E func s) = r1
         \<or> ((\<exists>v. r1 = Inr v \<and> classified_failed v) \<and> (\<exists>e. fst (with_retry E func s) = Inl e)))
   \<and> (snd (with_retry_traced E func s) = [] \<longrightarrow> (\<exists>e. fst (with_retry E func s) = Inl e))
   \<and> ((\<forall>t. length (operation_requests (snd (func t))) \<le> Suc (length (operation_requests t))) \<longrightarrow>
         length (operation_requests (snd (with_retry E func s))) \<le> length (operation_requests s) + 2)"
proof -
  have "length (snd (with_retry_traced E func s)) \<le> 2
   \<and> (\<forall>r1 r2. snd (with_retry_traced E func s) = [r1, r2] \<longrightarrow>
         (\<exists>v. r1 = Inr v \<and> classified_failed v) \<and> fst (with_retry E func s) = r2)
   \<and> (\<forall>r1. snd (with_retry_traced E func s) = [r1] \<longrightarrow>
         fst (with_retry E func s) = r1
         \<or> ((\<exists>v. r1 = Inr v \<and> classified_failed v) \<and> (\<exists>e. fst (with_retry E func s) = Inl e)))
   \<and> (snd (with_retry_traced E func s) = [] \<longrightarrow> (\<exists>e. fst (with_retry E func s) = Inl e))"
    by (auto simp: with_retry_def with_retry_traced_def split: prod.splits sum.splits if_splits)
  with with_retry_requests [of func E s] show ?thesis by blast
qed

text \<open>
  C1, at inputs: a deposit answered with status 403 both times runs the function
  twice, the second 403 is what the caller gets, and the panel has received two
  deposit requests; a deposit that the panel accepts runs it once; against a panel
  that answers the sign-in with a challenge page the function does not run and the
  call raises.
\<close>

theorem with_retry_at_most_twice_witness:
  "snd (with_retry_traced example_env (deposit_to_player_func example_env ''17'' (PInt 5)) fresh_state)
     = [Inr (PTuple [PInt 403, PDict []]), Inr (PTuple [PInt 403, PDict []])]
   \<and> classified_failed (PTuple [PInt 403, PDict []])
   \<and> fst (with_retry example_env (deposit_to_player_func example_env ''17'' (PInt 5)) fresh_state)
       = Inr (PTuple [PInt 403, PDict []])
   \<and> length (operation_requests
        (snd (with_retry example_env (deposit_to_player_func example_env ''17'' (PInt 5)) fresh_state))) \<le> 2
   \<and> snd (with_retry_traced accepting_env (deposit_to_player_func accepting_env ''17'' (PInt 5)) fresh_state)
       = [Inr (PTuple [PInt 200, PDict [(''result'', PBool True)]])]
   \<and> fst (with_retry accepting_env (deposit_to_player_func accepting_env ''17'' (PInt 5)) fresh_state)
       = Inr (PTuple [PInt 200, PDict [(''result'', PBool True)]])
   \<and> snd (with_retry_traced challenge_env (deposit_to_player_func challenge_env ''17'' (PInt 5)) fresh_state)
       = []
   \<and> (\<exists>e. fst (with_retry challenge_env (deposit_to_player_func challenge_env ''17'' (PInt 5)) fresh_state)
       = Inl e)"
proof -
  have tr: "snd (with_retry_traced example_env (deposit_to_player_func example_env ''17'' (PInt 5)) fresh_state)
     = [Inr (PTuple [PInt 403, PDict []]), Inr (PTuple [PInt 403, PDict []])]"
    by code_simp
  have rq: "\<forall>t. length (operation_requests (snd (deposit_to_player_func example_env ''17'' (PInt 5) t)))
      \<le> Suc (length (operation_requests t))"
    by (simp add: deposit_requests)
  have fr: "operation_requests fresh_state = []"
    by (simp add: operation_requests_def fresh_state_def)
  have once: "snd (with_retry_traced accepting_env (deposit_to_player_func accepting_env ''17'' (PInt 5)) fresh_state)
       = [Inr (PTuple [PInt 200, PDict [(''result'', PBool True)]])]"
    by code_simp
  have fine: "\<not> classified_failed (PTuple [PInt 200, PDict [(''result'', PBool True)]])"
    by code_simp
  have never: "snd (with_retry_traced challenge_env (deposit_to_player_func challenge_env ''17'' (PInt 5)) fresh_state)
       = []"
    by code_simp
  from with_retry_at_most_twice [of example_env "deposit_to_player_func example_env ''17'' (PInt 5)" fresh_state]
    tr rq fr
  have a: "snd (with_retry_traced example_env (deposit_to_player_func example_env ''17'' (PInt 5)) fresh_state)
     = [Inr (PTuple [PInt 403, PDict []]), Inr (PTuple [PInt 403, PDict []])]
   \<and> classified_failed (PTuple [PInt 403, PDict []])
   \<and> fst (with_retry example_env (deposit_to_player_func example_env ''17'' (PInt 5)) fresh_state)
       = Inr (PTuple [PInt 403, PDict []])
   \<and> length (operation_requests
        (snd (with_retry example_env (deposit_to_player_func example_env ''17'' (PInt 5)) fresh_state))) \<le> 2"
    by simp
  from with_retry_at_most_twice [of accepting_env "deposit_to_player_func accepting_env ''17'' (PInt 5)" fresh_state]
    once fine
  have b: "fst (with_retry accepting_env (deposit_to_player_func accepting_env ''17'' (PInt 5)) fresh_state)
       = Inr (PTuple [PInt 200, PDict [(''result'', PBool True)]])"
    by simp
  from with_retry_at_most_twice [of challenge_env "deposit_to_player_func challenge_env ''17'' (PInt 5)" fresh_state]
    never
  have c: "\<exists>e. fst (with_retry challenge_env (deposit_to_player_func challenge_env ''17'' (PInt 5)) fresh_state)
       = Inl e"
    by simp
  from a b c once never show ?thesis by simp
qed




text \<open>
  C3. The claim holds for the operations that carry the decorator and fails for
  \<open>check_email_exists\<close>, which carries none. Called after the session was cleared,
  against a panel that answers statistics requests with 403, it posts its one request,
  never signs in, never retries and returns \<open>False\<close>; \<open>check_player_exists\<close>, the same
  query by login, signs in, retries and signs in again. Called on a fresh object, it
  raises \<open>AttributeError\<close> because no scraper exists yet.
\<close>

theorem check_email_exists_not_wrapped:
  "fst (check_email_exists example_env ''bob@TSA.com'' logged_out_state) = Inr False
   \<and> map endpoint (sent (snd (check_email_exists example_env ''bob@TSA.com'' logged_out_state)))
       = [ORIGIN @ ENDPOINTS ''statistics'']
   \<and> map endpoint (sent (snd (check_player_exists example_env ''bob'' logged_out_state)))
       = [ORIGIN @ ENDPOINTS ''signin'', ORIGIN @ ENDPOINTS ''statistics'',
          ORIGIN @ ENDPOINTS ''signin'', ORIGIN @ ENDPOINTS ''statistics'']
   \<and> fst (check_email_exists example_env ''bob@TSA.com'' fresh_state)
       = Inl (Exc AttributeError (quoted ''NoneType'' @ '' object has no attribute '' @ quoted ''post''))"
  by code_simp

section \<open>The session record\<close>



section \<open>Ensuring a session\<close>




section \<open>The record a login writes\<close>



section \<open>Malformed answers\<close>

text \<open>
  C7. The claim holds for the four operations whose lookups are all inside the \<open>try\<close>
  and fails for \<open>get_player_balance\<close>, where only \<open>resp.json()\<close> is. When the panel
  answers the balance request with the JSON array \<open>[]\<close> (a body that decodes and has
  none of the expected fields), \<open>get_player_balance\<close> raises \<open>AttributeError\<close>, while
  the existence check returns \<open>False\<close>, the id lookup \<open>None\<close> and the listing \<open>[]\<close>
  on the same answer.
\<close>

theorem get_player_balance_raises:
  "fst (get_player_balance array_body_env ''17'' fresh_state)
     = Inl (Exc AttributeError (quoted ''list'' @ '' object has no attribute '' @ quoted ''get''))
   \<and> fst (check_player_exists array_body_env ''bob'' fresh_state) = Inr (PBool False)
   \<and> fst (check_email_exists array_body_env ''bob@TSA.com'' ready_state) = Inr False
   \<and> fst (get_player_id_by_login array_body_env ''bob'' fresh_state) = Inr PNone
   \<and> fst (get_all_players array_body_env fresh_state) = Inr (PList [])"
  by code_simp

section \<open>Login failures\<close>

text \<open>
  C8, as the claim words it, fails on the tags: on a challenge page \<open>login\<close> does not
  return the tag \<open>challenge_detected\<close>, and on a body that is not JSON it does not
  return \<open>invalid_response\<close>.
\<close>

theorem login_failure_tags_counterexample:
  "(case post_at challenge_env 0 (signin_request challenge_env) of
      Inl m \<Rightarrow> False | Inr resp \<Rightarrow> check_captcha (body_text resp))
   \<and> fst (login challenge_env fresh_state) \<noteq> (False, PDict [(''error'', PStr ''challenge_detected'')])
   \<and> (case post_at undecodable_env 0 (signin_request undecodable_env) of
        Inl m \<Rightarrow> False | Inr resp \<Rightarrow> body_json resp = None)
   \<and> fst (login undecodable_env fresh_state) \<noteq> (False, PDict [(''error'', PStr ''invalid_response'')])"
  by code_simp

text \<open>
  C8, amended. \<open>login\<close> posts exactly one sign-in request and returns a pair, never an
  exception. When the transport raises, the pair is \<open>False\<close> with
  \<open>{"error": str(e)}\<close>; when the answer's text is detected as a challenge page, it is
  \<open>False\<close> with \<open>{"error": "captcha_detected"}\<close>; when the text is no challenge page
  and the body does not decode, it is \<open>False\<close> with \<open>{"error": "invalid_json"}\<close>.
\<close>

theorem login_failure_tags:
  "sent (snd (login E s)) = sent s @ [signin_request E]
   \<and> (\<forall>m. post_at E (length (sent s)) (signin_request E) = Inl m \<longrightarrow>
          fst (login E s) = (False, PDict [(''error'', PStr m)]))
   \<and> (\<forall>resp. post_at E (length (sent s)) (signin_request E) = Inr resp \<and>
          check_captcha (body_text resp) \<longrightarrow>
          fst (login E s) = (False, PDict [(''error'', PStr ''captcha_detected'')]))
   \<and> (\<forall>resp. post_at E (length (sent s)) (signin_request E) = Inr resp \<and>
          \<not> check_captcha (body_text resp) \<and> body_json resp = None \<longrightarrow>
          fst (login E s) = (False, PDict [(''error'', PStr ''invalid_json'')]))"
proof -
  define s0 where "s0 = (if scraper s = None then init_scraper E s else s)"
  have sc: "scraper s0 \<noteq> None" and se: "sent s0 = sent s"
    using init_scraper_Some [of E s] by (auto simp: s0_def init_scraper_frame)
  have lg: "fst (login E s) =
      (case fst (login_try E s0) of
         Inl e \<Rightarrow> (False, PDict [(''error'', PStr (exc_str e))]) | Inr r \<Rightarrow> r)"
    by (simp add: login_def s0_def split_beta split: sum.splits)
  from login_try_outcome [OF sc, of E] se lg login_sent [of E s]
  show ?thesis by (auto split: sum.splits)
qed

text \<open>
  C8 amended, at inputs: a refused connection, a challenge page and a body that is not
  JSON give the three failures, and the challenge page costs one request.
\<close>

theorem login_failure_tags_witness:
  "fst (login refused_env fresh_state) = (False, PDict [(''error'', PStr ''Connection refused'')])
   \<and> fst (login challenge_env fresh_state) = (False, PDict [(''error'', PStr ''captcha_detected'')])
   \<and> fst (login undecodable_env fresh_state) = (False, PDict [(''error'', PStr ''invalid_json'')])
   \<and> sent (snd (login challenge_env fresh_state)) = [signin_request challenge_env]"
proof -
  have a: "post_at refused_env (length (sent fresh_state)) (signin_request refused_env)
      = Inl ''Connection refused''"
    by (simp add: refused_env_def)
  have b: "post_at challenge_env (length (sent fresh_state)) (signin_request challenge_env)
      = Inr challenge_page"
    by (simp add: challenge_env_def)
  have b': "check_captcha (body_text challenge_page)"
    by code_simp
  have c: "post_at undecodable_env (length (sent fresh_state)) (signin_request undecodable_env)
      = Inr forbidden"
    by (simp add: undecodable_env_def)
  have c': "\<not> check_captcha (body_text forbidden) \<and> body_json forbidden = None"
    by code_simp
  have e: "sent fresh_state = []"
    by (simp add: fresh_state_def)
  from login_failure_tags [of refused_env fresh_state] a
  have "fst (login refused_env fresh_state) = (False, PDict [(''error'', PStr ''Connection refused'')])"
    by blast
  moreover from login_failure_tags [of challenge_env fresh_state] b b' e
  have "fst (login challenge_env fresh_state) = (False, PDict [(''error'', PStr ''captcha_detected'')])
      \<and> sent (snd (login challenge_env fresh_state)) = [signin_request challenge_env]"
    by auto
  moreover from login_failure_tags [of undecodable_env fresh_state] c c'
  have "fst (login undecodable_env fresh_state) = (False, PDict [(''error'', PStr ''invalid_json'')])"
    by blast
  ultimately show ?thesis by simp
qed

section \<open>The two uniqueness loops\<close>

text \<open>
  C9. Whatever the existence check answers, username generation probes at most 6
  names: first \<open>ZEUS_\<close> followed by the raw name, then that name with an underscore and
  three random characters. Every probe before the last one found its name taken. When
  a name is returned, it is the last one probed and the check found it free. When all the
  probes made found their names taken, there were 6 of them and the \<open>ValueError\<close> that
  says the name is unavailable is raised.
\<close>

theorem generate_username_bounded:
  "generate_username_traced E check raw_username s = ((res, s'), probes) \<Longrightarrow>
     length probes \<le> 6
     \<and> probes \<noteq> [] \<and> fst (hd probes) = ''ZEUS_'' @ raw_username
     \<and> (\<forall>p \<in> set (tl probes). \<exists>x. length x = 3 \<and> fst p = ''ZEUS_'' @ raw_username @ ''_'' @ x)
     \<and> (\<forall>p \<in> set (butlast probes). \<exists>v. snd p = Inr v \<and> truthy v)
     \<and> (\<forall>u. res = Inr u \<longrightarrow>
           fst (last probes) = u \<and> (\<exists>v. snd (last probes) = Inr v \<and> \<not> truthy v))
     \<and> ((\<forall>p \<in> set probes. \<exists>v. snd p = Inr v \<and> truthy v) \<longrightarrow>
           length probes = 6 \<and> res = Inl (Exc ValueError USERNAME_UNAVAILABLE))"
  using username_loop_props [of E check "''ZEUS_'' @ raw_username" 0 6 s res s' probes]
  by (simp add: generate_username_traced_def)

text \<open>
  C9, at inputs: for the base \<open>bob\<close> with every name taken, six names are probed and
  the error is raised; with \<open>ZEUS_bob\<close> and the first two variants taken, the third
  variant is returned after four probes; with the client's own \<open>check_player_exists\<close>
  against a panel that knows no player, \<open>ZEUS_bob\<close> is returned at the first probe.
\<close>

theorem generate_username_bounded_witness:
  "fst (fst (generate_username_traced example_env always_taken ''bob'' fresh_state))
     = Inl (Exc ValueError USERNAME_UNAVAILABLE)
   \<and> length (snd (generate_username_traced example_env always_taken ''bob'' fresh_state)) = 6
   \<and> fst (fst (generate_username_traced example_env
        (taken_check [''ZEUS_bob'', ''ZEUS_bob_abc'', ''ZEUS_bob_def'']) ''bob'' fresh_state))
     = Inr ''ZEUS_bob_ghi''
   \<and> fst (generate_username example_env ''bob'' fresh_state) = Inr ''ZEUS_bob''"
proof -
  let ?g = "generate_username_traced example_env always_taken ''bob'' fresh_state"
  let ?k = "generate_username_traced example_env (check_player_exists example_env) ''bob'' fresh_state"
  let ?h = "generate_username_traced example_env
        (taken_check [''ZEUS_bob'', ''ZEUS_bob_abc'', ''ZEUS_bob_def'']) ''bob'' fresh_state"
  have pg: "snd ?g =
     [(''ZEUS_bob'', Inr (PBool True)), (''ZEUS_bob_abc'', Inr (PBool True)),
      (''ZEUS_bob_def'', Inr (PBool True)), (''ZEUS_bob_ghi'', Inr (PBool True)),
      (''ZEUS_bob_jkl'', Inr (PBool True)), (''ZEUS_bob_mno'', Inr (PBool True))]"
    by code_simp
  have ph: "snd ?h =
     [(''ZEUS_bob'', Inr (PBool True)), (''ZEUS_bob_abc'', Inr (PBool True)),
      (''ZEUS_bob_def'', Inr (PBool True)), (''ZEUS_bob_ghi'', Inr (PBool False))]"
    by code_simp
  have rh: "case fst (fst ?h) of Inl e \<Rightarrow> False | Inr u \<Rightarrow> True"
    by code_simp
  have "?g = ((fst (fst ?g), snd (fst ?g)), snd ?g)" by simp
  from generate_username_bounded [OF this] pg
  have a: "fst (fst ?g) = Inl (Exc ValueError USERNAME_UNAVAILABLE) \<and> length (snd ?g) = 6"
    by simp
  have "?h = ((fst (fst ?h), snd (fst ?h)), snd ?h)" by simp
  from generate_username_bounded [OF this] ph rh
  have b: "fst (fst ?h) = Inr ''ZEUS_bob_ghi''"
    by (cases "fst (fst ?h)") auto
  have pk: "snd ?k = [(''ZEUS_bob'', Inr (PBool False))]"
    by code_simp
  have rk: "case fst (fst ?k) of Inl e \<Rightarrow> False | Inr u \<Rightarrow> True"
    by code_simp
  have "?k = ((fst (fst ?k), snd (fst ?k)), snd ?k)" by simp
  from generate_username_bounded [OF this] pk rk
  have "fst (fst ?k) = Inr ''ZEUS_bob''"
    by (cases "fst (fst ?k)") auto
  then have c: "fst (generate_username example_env ''bob'' fresh_state) = Inr ''ZEUS_bob''"
    by (simp add: generate_username_def)
  from a b c show ?thesis by simp
qed

text \<open>
  C10. The e-mail loop has no bound of its own. Against a panel that reports every
  e-mail asked for as taken, the loop is still running after any number of probes.
  When the loop returns an e-mail, a probe of that e-mail has answered that it is
  free. And for every number \<open>n\<close> there are surroundings in which the loop is still
  running after \<open>n\<close> probes and returns at the next one: no count of probes ends it,
  unlike the six rounds of the username loop. The operation around the loop,
  \<open>create_player_with_credentials\<close>, does not return either while every probe answers
  that the e-mail is taken. The username loop, whatever its check answers, stops within
  six probes.
\<close>

theorem unique_email_unbounded:
  "(scraper s \<noteq> None \<and> (\<forall>e t. scraper t \<noteq> None \<longrightarrow> fst (check_email_exists E e t) = Inr True)
      \<longrightarrow> (\<forall>fuel. unique_email fuel E login_name email s = None))
   \<and> (\<forall>fuel r s'. unique_email fuel E login_name email s = Some (Inr r, s') \<longrightarrow>
         (\<exists>t. check_email_exists E r t = (Inr False, s')))
   \<and> (\<forall>n. \<exists>E' s0. unique_email n E' login_name email s0 = None
         \<and> (\<exists>r s'. unique_email (Suc n) E' login_name email s0 = Some (Inr r, s')))
   \<and> (scraper s \<noteq> None \<and> (\<forall>e t. scraper t \<noteq> None \<longrightarrow> fst (check_email_exists E e t) = Inr True)
      \<longrightarrow> (\<forall>fuel. create_player_with_credentials_func fuel E login_name pwd s = None))
   \<and> (\<forall>check raw_username s0. length (snd (generate_username_traced E check raw_username s0)) \<le> 6)"
proof -
  have six: "length (snd (generate_username_traced E check raw_username s0)) \<le> 6"
    for check raw_username s0
  proof -
    obtain r probes where x: "generate_username_traced E check raw_username s0 = (r, probes)"
      by (cases "generate_username_traced E check raw_username s0")
    obtain res s' where r: "r = (res, s')"
      by (cases r)
    from x r have "username_loop E check (''ZEUS_'' @ raw_username) 0 6 s0 = ((res, s'), probes)"
      by (simp add: generate_username_traced_def)
    from username_loop_props [OF this] x show ?thesis
      by simp
  qed
  have loop: "scraper s \<noteq> None \<and> (\<forall>e t. scraper t \<noteq> None \<longrightarrow> fst (check_email_exists E e t) = Inr True)
      \<longrightarrow> (\<forall>fuel. unique_email fuel E login_name e0 s = None)" for e0
    using unique_email_never_returns [of E s _ login_name e0] by blast
  from loop [of "first_email login_name"]
  have func: "scraper s \<noteq> None \<and> (\<forall>e t. scraper t \<noteq> None \<longrightarrow> fst (check_email_exists E e t) = Inr True)
      \<longrightarrow> (\<forall>fuel. create_player_with_credentials_func fuel E login_name pwd s = None)"
    by (simp add: create_player_with_credentials_func_def)
  have free: "\<forall>fuel r s'. unique_email fuel E login_name email s = Some (Inr r, s') \<longrightarrow>
         (\<exists>t. check_email_exists E r t = (Inr False, s'))"
    using unique_email_returns_free [of _ E login_name email s] by blast
  have more: "\<forall>n. \<exists>E' s0. unique_email n E' login_name email s0 = None
         \<and> (\<exists>r s'. unique_email (Suc n) E' login_name email s0 = Some (Inr r, s'))"
    using unique_email_no_bound [of _ login_name email] by blast
  have bound: "\<forall>check raw_username s0. length (snd (generate_username_traced E check raw_username s0)) \<le> 6"
    using six by blast
  show ?thesis
    by (intro conjI) (rule loop, rule free, rule more, rule func, rule bound)
qed

text \<open>
  C10, at inputs: against the panel that reports every e-mail as taken the loop for
  \<open>bob\<close> never returns; against the panel that does so twice, it is still running
  after two probes and returns \<open>bob_1001@TSA.com\<close>, found free, at the third.
\<close>

theorem unique_email_unbounded_witness:
  "(\<forall>fuel. unique_email fuel echo_env ''bob'' (first_email ''bob'') ready_state = None)
   \<and> unique_email 2 (busy_env 2) ''bob'' (first_email ''bob'') ready_state = None
   \<and> (\<exists>t s'. unique_email 3 (busy_env 2) ''bob'' (first_email ''bob'') ready_state
               = Some (Inr ''bob_1001@TSA.com'', s')
         \<and> check_email_exists (busy_env 2) ''bob_1001@TSA.com'' t = (Inr False, s'))
   \<and> (\<forall>fuel. create_player_with_credentials_func fuel echo_env ''bob'' ''Pass1234'' ready_state = None)"
proof -
  have sc: "scraper ready_state \<noteq> None"
    by (simp add: ready_state_def fresh_state_def)
  have ec: "\<forall>e t. scraper t \<noteq> None \<longrightarrow> fst (check_email_exists echo_env e t) = Inr True"
    by (simp add: check_email_echo)
  have two: "unique_email 2 (busy_env 2) ''bob'' (first_email ''bob'') ready_state = None"
    by code_simp
  have "case unique_email 3 (busy_env 2) ''bob'' (first_email ''bob'') ready_state of
          Some (Inr r, t) \<Rightarrow> r = ''bob_1001@TSA.com'' | _ \<Rightarrow> False"
    by code_simp
  then obtain s' where three: "unique_email 3 (busy_env 2) ''bob'' (first_email ''bob'') ready_state
      = Some (Inr ''bob_1001@TSA.com'', s')"
    by (auto split: option.splits sum.splits)
  note echo = unique_email_unbounded [of ready_state echo_env "''bob''" "first_email ''bob''" "''Pass1234''"]
  note busy = unique_email_unbounded [of ready_state "busy_env 2" "''bob''" "first_email ''bob''" "''Pass1234''"]
  from echo [THEN conjunct1] sc ec
  have a: "\<forall>fuel. unique_email fuel echo_env ''bob'' (first_email ''bob'') ready_state = None"
    by simp
  from echo [THEN conjunct2, THEN conjunct2, THEN conjunct2, THEN conjunct1] sc ec
  have a': "\<forall>fuel. create_player_with_credentials_func fuel echo_env ''bob'' ''Pass1234'' ready_state = None"
    by simp
  from busy [THEN conjunct2, THEN conjunct1] three
  have b: "\<exists>t. check_email_exists (busy_env 2) ''bob_1001@TSA.com'' t = (Inr False, s')"
    by blast
  from three b
  have c: "\<exists>t s'. unique_email 3 (busy_env 2) ''bob'' (first_email ''bob'') ready_state
               = Some (Inr ''bob_1001@TSA.com'', s')
         \<and> check_email_exists (busy_env 2) ''bob_1001@TSA.com'' t = (Inr False, s')"
    by blast
  show ?thesis
    by (intro conjI) (rule a, rule two, rule c, rule a')
qed

end
